theory Spec2Isabelle
  imports Complex_Main
begin

section \<open>Smart AC system server: the control state machine of RPiServer_v1.0.py\<close>

text \<open>
  The program keeps its state in module-level variables. Two activities change them:
  the MQTT callback \<open>on_message\<close> (one call per inbound message) and the body of the
  main \<open>while True\<close> loop (one run per iteration). Both are modelled as functions from
  the state to the new state, the list of effects performed (publications, sleeps,
  prints, log-file writes) and the way control left the code.

  The callback runs in the thread that \<open>mqttClient.loop_start()\<close> starts, beside the
  main loop, and the program has no lock. Runs and reachable states below take calls of
  \<open>on_message\<close> and iterations of the loop one at a time, each as a whole: they are the
  executions in which calls and iterations take effect one at a time, as if the two
  threads were serialised. What an overlap adds is shown on the two places where it
  matters, the occupancy handler and the quiet-mode rule, which are also given statement
  by statement.

  Times are the values of \<open>datetime.datetime.now().timestamp()\<close>, taken as real numbers.
  The built-ins \<open>int\<close> and \<open>float\<close> applied to a payload are parameters of the model
  (\<open>None\<close> stands for \<open>ValueError\<close>), so every general statement holds for whatever
  these parsers accept. Temperatures are real numbers too: the special floats that
  \<open>float\<close> can return are not told apart, and no statement below depends on a
  temperature. The payload of a message is the text that \<open>message.payload.decode()\<close>
  returns.
\<close>

subsection \<open>Values of the global variables\<close>

text \<open>\<open>roomOccupancy\<close> holds the string "N/A" or an integer.\<close>

datatype occupancy = NA | Num int

text \<open>\<open>arduinoAvailable\<close> holds the string "N/A", \<open>True\<close> or \<open>False\<close>.\<close>

datatype availability = AvailNA | Avail bool

text \<open>\<open>is_number(var)\<close> is \<open>isinstance(var, (int, float))\<close>.\<close>

fun is_number :: "occupancy \<Rightarrow> bool" where
  "is_number NA = False"
| "is_number (Num n) = True"

record state =
  arduinoAvailable :: availability
  arduinoTemp :: "real option"
  rpiTemp :: "real option"
  roomOccupancy :: occupancy
  priorRoomOccupancy :: "occupancy option"
  systemMode :: string
  systemTargetTemp :: int
  systemPowerState :: string
  timeoutState :: bool
  timeoutEndTimestamp :: "real option"
  timeoutEndTime :: "real option"

text \<open>
  \<open>timeoutEndTimestamp\<close> and \<open>timeoutEndTime\<close> are not assigned at module level: they
  come into being in the arming block of the main loop. \<open>None\<close> is the unbound name;
  reading it raises \<open>NameError\<close>. \<open>timeoutEndTime\<close> is the \<open>datetime\<close> built from the
  timestamp, kept here as that timestamp.
\<close>

definition init :: state where
  "init = \<lparr> arduinoAvailable = AvailNA, arduinoTemp = None, rpiTemp = None,
            roomOccupancy = NA, priorRoomOccupancy = None, systemMode = ''N/A'',
            systemTargetTemp = 16, systemPowerState = ''off'', timeoutState = False,
            timeoutEndTimestamp = None, timeoutEndTime = None \<rparr>"

definition validPowerStates :: "string list" where
  "validPowerStates = [''on'', ''off'']"

definition validModes :: "string list" where
  "validModes = [''quiet'', ''super'', ''cooling'']"

definition validTemps :: "int list" where
  "validTemps = [16, 17, 18, 19, 20, 21, 22, 23, 24, 25]"

definition timeoutMinutes :: real where
  "timeoutMinutes = 5"

subsection \<open>MQTT channels\<close>

definition globalLog :: string where "globalLog = ''SmartACSystem/global/log''"
definition serverLogNotice :: string where "serverLogNotice = ''RPiServer/notice/log''"
definition serverTempCommand :: string where "serverTempCommand = ''RPiServer/command/temp''"
definition serverModeCommand :: string where "serverModeCommand = ''RPiServer/command/mode''"
definition serverPowerCommand :: string where "serverPowerCommand = ''RPiServer/command/power''"
definition serverTempRequest :: string where "serverTempRequest = ''RPiServer/request/temp''"
definition arduinoLogNotice :: string where "arduinoLogNotice = ''arduino/notice/log''"
definition arduinoTempNotice :: string where "arduinoTempNotice = ''arduino/notice/temp''"
definition arduinoOccChangeNotice :: string where
  "arduinoOccChangeNotice = ''arduino/notice/occ_change''"
definition serverArduinoUpNotice :: string where
  "serverArduinoUpNotice = ''RPiServer/notice/arduino_up''"
definition serverTempNotice_arduino :: string where
  "serverTempNotice_arduino = ''RPiServer/notice/temp_arduino''"
definition serverTempNotice_rpi :: string where
  "serverTempNotice_rpi = ''RPiServer/notice/temp_rpi''"
definition serverTargetTempNotice :: string where
  "serverTargetTempNotice = ''RPiServer/notice/temp_target''"
definition serverModeNotice :: string where "serverModeNotice = ''RPiServer/notice/mode''"
definition serverPowerStateNotice :: string where
  "serverPowerStateNotice = ''RPiServer/notice/power''"
definition serverOccupancyNotice :: string where
  "serverOccupancyNotice = ''RPiServer/notice/occupancy''"
definition serverTimeoutNotice :: string where
  "serverTimeoutNotice = ''RPiServer/notice/timeout''"
definition userRefreshRequest :: string where "userRefreshRequest = ''user/request/all''"
definition userTempCommand :: string where "userTempCommand = ''user/command/temp''"
definition userModeCommand :: string where "userModeCommand = ''user/command/mode''"
definition userPowerCommand :: string where "userPowerCommand = ''user/command/power''"
definition userUpdateOccCommand :: string where
  "userUpdateOccCommand = ''user/command/occ_change''"

text \<open>
  The topics \<open>on_connect\<close> subscribes to. \<open>userUpdateOccCommand\<close> is not among them, so
  the broker never delivers a message on it.
\<close>

definition subscribeTopics :: "string list" where
  "subscribeTopics = [arduinoLogNotice, arduinoTempNotice, arduinoOccChangeNotice,
                      userRefreshRequest, userTempCommand, userModeCommand, userPowerCommand,
                      serverLogNotice]"

subsection \<open>Effects\<close>

text \<open>The f-strings published on the server log, one constructor per string.\<close>

datatype logmsg =
    LogTempProcessed real
  | LogInvalidTemp string
  | LogOccChange "occupancy option" occupancy
  | LogInvalidOccChange string
  | LogRefresh
  | LogPowerForwarded string
  | LogInvalidPower string
  | LogModeForwarded string
  | LogInvalidMode string
  | LogTempForwarded int
  | LogTempOutOfRange int
  | LogInvalidTargetTemp string
  | LogInvalidOccupancy int
  | LogInvalidOccUpdate string
  | LogArduinoSilent
  | LogRequestingTemp
  | LogTempsRecorded "real option" "real option"
  | LogTimeoutTriggered real
  | LogTimeoutCancelled
  | LogTimeoutExpired
  | LogOffTimerCancelled

datatype pubval =
    VStr string
  | VInt int
  | VTemp "real option"
  | VOcc occupancy
  | VAvail availability
  | VHourMinute real
  | VLog logmsg
  | VLogLine string string

text \<open>
  \<open>Publish topic v\<close> is \<open>client.publish(topic, v)\<close>, \<open>Sleep d\<close> is \<open>time.sleep(d)\<close>,
  \<open>Print\<close> is \<open>print\<close>, and \<open>LogFileAppend topic payload\<close> is the line written to
  serverLog.txt (its time stamp is left out, as it is in \<open>VLogLine\<close>).
\<close>

datatype action =
    Publish string pubval
  | Sleep real
  | Print string
  | LogFileAppend string string

datatype pyerror = TypeError | NameError

text \<open>
  How control leaves a block: it falls through to the next statement (\<open>Next\<close>), it
  leaves the enclosing code by \<open>return\<close> or \<open>continue\<close> (\<open>Leave\<close>), or an exception that
  no handler catches propagates (\<open>Raise\<close>).
\<close>

datatype flow = Next | Leave | Raise pyerror

type_synonym ctx = "state \<times> action list"

fun run_blocks :: "(ctx \<Rightarrow> flow \<times> ctx) list \<Rightarrow> ctx \<Rightarrow> flow \<times> ctx" where
  "run_blocks [] c = (Next, c)"
| "run_blocks (b # bs) c =
     (case b c of (Next, c') \<Rightarrow> run_blocks bs c' | (Leave, c') \<Rightarrow> (Leave, c')
      | (Raise e, c') \<Rightarrow> (Raise e, c'))"

text \<open>\<open>sub in text\<close> on strings.\<close>

fun starts_with :: "string \<Rightarrow> string \<Rightarrow> bool" where
  "starts_with text [] = True"
| "starts_with [] (c # cs) = False"
| "starts_with (d # ds) (c # cs) = (d = c \<and> starts_with ds cs)"

fun str_contains :: "string \<Rightarrow> string \<Rightarrow> bool" where
  "str_contains [] sub = (sub = [])"
| "str_contains (d # ds) sub = (starts_with (d # ds) sub \<or> str_contains ds sub)"

subsection \<open>The message callback\<close>

record builtins =
  py_int :: "string \<Rightarrow> int option"
  py_float :: "string \<Rightarrow> real option"

record message =
  topic :: string
  payload :: string

text \<open>Temperature notification from the Arduino.\<close>

definition temp_notice_block :: "builtins \<Rightarrow> message \<Rightarrow> ctx \<Rightarrow> flow \<times> ctx" where
  "temp_notice_block B m c =
     (case c of (s, out) \<Rightarrow>
        if topic m = arduinoTempNotice then
          (let s1 = s\<lparr>arduinoAvailable := Avail True\<rparr> in
           case py_float B (payload m) of
             Some v \<Rightarrow>
               (Next, s1\<lparr>arduinoTemp := Some v\<rparr>,
                      out @ [Publish serverLogNotice (VLog (LogTempProcessed v))])
           | None \<Rightarrow>
               (Next, s1, out @ [Publish serverLogNotice (VLog (LogInvalidTemp (payload m)))]))
        else (Next, c))"

text \<open>
  Occupancy change notification from the Arduino. \<open>roomOccupancy += occChange\<close> on the
  string "N/A" raises \<open>TypeError\<close>, which \<open>except ValueError\<close> does not catch; the
  assignment to \<open>priorRoomOccupancy\<close> before it stands.
\<close>

definition occ_change_block :: "builtins \<Rightarrow> message \<Rightarrow> ctx \<Rightarrow> flow \<times> ctx" where
  "occ_change_block B m c =
     (case c of (s, out) \<Rightarrow>
        if topic m = arduinoOccChangeNotice then
          (if systemPowerState s = ''off'' then (Leave, c)
           else
             case py_int B (payload m) of
               None \<Rightarrow>
                 (Next, s, out @ [Publish serverLogNotice
                                    (VLog (LogInvalidOccChange (payload m)))])
             | Some occChange \<Rightarrow>
                 (let s1 = s\<lparr>priorRoomOccupancy := Some (roomOccupancy s)\<rparr> in
                  case roomOccupancy s1 of
                    NA \<Rightarrow> (Raise TypeError, s1, out)
                  | Num n \<Rightarrow>
                      (let s2 = s1\<lparr>roomOccupancy := Num (n + occChange)\<rparr>;
                           s3 = (if n + occChange < 0 then s2\<lparr>roomOccupancy := Num 0\<rparr>
                                 else s2)
                       in (Next, s3,
                           out @ [Publish serverLogNotice
                                    (VLog (LogOccChange (priorRoomOccupancy s3)
                                             (roomOccupancy s3)))]))))
        else (Next, c))"

text \<open>
  User client data refresh. Formatting \<open>timeoutEndTime\<close> reads a name that only the main
  loop's arming block assigns.
\<close>

definition refresh_block :: "message \<Rightarrow> ctx \<Rightarrow> flow \<times> ctx" where
  "refresh_block m c =
     (case c of (s, out) \<Rightarrow>
        if topic m = userRefreshRequest then
          (let out1 = out @
                 [Publish serverTempNotice_arduino (VTemp (arduinoTemp s)),
                  Publish serverTempNotice_rpi (VTemp (rpiTemp s)),
                  Publish serverPowerStateNotice (VStr (systemPowerState s)),
                  Publish serverModeNotice (VStr (systemMode s)),
                  Publish serverTargetTempNotice (VInt (systemTargetTemp s)),
                  Publish serverOccupancyNotice (VOcc (roomOccupancy s)),
                  Publish serverArduinoUpNotice (VAvail (arduinoAvailable s))]
           in
           if systemPowerState s = ''off'' \<or> timeoutState s = False then
             (Next, s, out1 @ [Publish serverTimeoutNotice (VStr ''N/A''),
                               Publish serverLogNotice (VLog LogRefresh)])
           else
             case timeoutEndTime s of
               None \<Rightarrow> (Raise NameError, s, out1)
             | Some t \<Rightarrow>
                 (Next, s, out1 @ [Publish serverTimeoutNotice (VHourMinute t),
                                   Publish serverLogNotice (VLog LogRefresh)]))
        else (Next, c))"

text \<open>Power on and off. The block ends in \<open>return\<close> on both branches.\<close>

definition power_block :: "message \<Rightarrow> ctx \<Rightarrow> flow \<times> ctx" where
  "power_block m c =
     (case c of (s, out) \<Rightarrow>
        if topic m = userPowerCommand then
          (if payload m \<in> set validPowerStates then
             (let out1 = out @ [Publish serverPowerCommand (VStr (payload m)),
                                Publish serverLogNotice (VLog (LogPowerForwarded (payload m)))];
                  (s1, out2) =
                    (if systemPowerState s = ''off'' \<and> payload m = ''on'' then
                       (let sa = (if \<not> is_number (roomOccupancy s)
                                  then s\<lparr>roomOccupancy := Num 0\<rparr> else s)
                        in (sa\<lparr>systemMode := ''super''\<rparr>,
                            out1 @ [Sleep (1/2),
                                    Publish serverModeCommand (VStr ''super''),
                                    Sleep (1/2),
                                    Publish serverTempCommand (VInt (systemTargetTemp s))]))
                     else (s, out1));
                  s2 = (if systemPowerState s1 = ''on'' \<and> payload m = ''off'' then
                          s1\<lparr>roomOccupancy := NA, systemMode := ''N/A''\<rparr>
                        else s1)
              in (Leave, s2\<lparr>systemPowerState := payload m\<rparr>, out2))
           else
             (Leave, s, out @ [Publish serverLogNotice (VLog (LogInvalidPower (payload m)))]))
        else (Next, c))"

text \<open>Change AC mode.\<close>

definition mode_block :: "message \<Rightarrow> ctx \<Rightarrow> flow \<times> ctx" where
  "mode_block m c =
     (case c of (s, out) \<Rightarrow>
        if topic m = userModeCommand then
          (if payload m \<in> set validModes then
             (Next, s\<lparr>systemMode := payload m\<rparr>,
              out @ [Publish serverModeCommand (VStr (payload m)),
                     Publish serverLogNotice (VLog (LogModeForwarded (payload m)))])
           else
             (Next, s, out @ [Publish serverLogNotice (VLog (LogInvalidMode (payload m)))]))
        else (Next, c))"

text \<open>Change AC temperature.\<close>

definition temp_block :: "builtins \<Rightarrow> message \<Rightarrow> ctx \<Rightarrow> flow \<times> ctx" where
  "temp_block B m c =
     (case c of (s, out) \<Rightarrow>
        if topic m = userTempCommand then
          (case py_int B (payload m) of
             Some temp \<Rightarrow>
               if temp \<in> set validTemps then
                 (Next, s\<lparr>systemTargetTemp := temp\<rparr>,
                  out @ [Publish serverTempCommand (VInt temp),
                         Publish serverLogNotice (VLog (LogTempForwarded temp))])
               else
                 (Next, s, out @ [Publish serverLogNotice (VLog (LogTempOutOfRange temp))])
           | None \<Rightarrow>
               (Next, s, out @ [Publish serverLogNotice
                                  (VLog (LogInvalidTargetTemp (payload m)))]))
        else (Next, c))"

text \<open>Update occupancy.\<close>

definition occ_update_block :: "builtins \<Rightarrow> message \<Rightarrow> ctx \<Rightarrow> flow \<times> ctx" where
  "occ_update_block B m c =
     (case c of (s, out) \<Rightarrow>
        if topic m = userUpdateOccCommand then
          (let out1 = out @ [Print ''Update occupancy command received''] in
           case py_int B (payload m) of
             Some newOccupancy \<Rightarrow>
               if newOccupancy \<ge> 0 then
                 (Next, s\<lparr>priorRoomOccupancy := Some (roomOccupancy s),
                           roomOccupancy := Num newOccupancy\<rparr>, out1)
               else
                 (Next, s, out1 @ [Publish serverLogNotice
                                     (VLog (LogInvalidOccupancy newOccupancy))])
           | None \<Rightarrow>
               (Next, s, out1 @ [Publish serverLogNotice
                                   (VLog (LogInvalidOccUpdate (payload m)))]))
        else (Next, c))"

text \<open>Write any logs to a logfile, and re-emit them to the global log.\<close>

definition log_block :: "message \<Rightarrow> ctx \<Rightarrow> flow \<times> ctx" where
  "log_block m c =
     (case c of (s, out) \<Rightarrow>
        if str_contains (topic m) ''/notice/log'' then
          (Next, s, out @ [LogFileAppend (topic m) (payload m),
                           Publish globalLog (VLogLine (topic m) (payload m))])
        else (Next, c))"

text \<open>The callback: its \<open>if\<close> blocks in the order of the source.\<close>

definition on_message :: "builtins \<Rightarrow> state \<Rightarrow> message \<Rightarrow> flow \<times> ctx" where
  "on_message B s m =
     run_blocks [temp_notice_block B m, occ_change_block B m, refresh_block m,
                 power_block m, mode_block m, temp_block B m, occ_update_block B m,
                 log_block m] (s, [])"

subsection \<open>The main loop\<close>

text \<open>
  What one iteration of the loop reads from outside: the clock at the three places
  where the body calls \<open>datetime.datetime.now().timestamp()\<close> (the minute test, the
  arming block, the expiry test) and the outcome of \<open>rpiTempSensor.temperature\<close>, which
  is a reading (a number or \<open>None\<close>) or a \<open>RuntimeError\<close> with its message.
\<close>

datatype sensor_read = Temperature "real option" | RuntimeError string

record tick =
  now_poll :: real
  sensor :: sensor_read
  now_arm :: real
  now_expiry :: real

text \<open>\<open>int(x)\<close> on a float truncates towards zero.\<close>

definition py_trunc :: "real \<Rightarrow> int" where
  "py_trunc x = (if x \<ge> 0 then \<lfloor>x\<rfloor> else \<lceil>x\<rceil>)"

text \<open>
  \<open>roomOccupancy > 0\<close>; the source evaluates it only after \<open>is_number(roomOccupancy)\<close>.
\<close>

fun occ_positive :: "occupancy \<Rightarrow> bool" where
  "occ_positive (Num n) = (n > 0)"
| "occ_positive NA = False"

text \<open>
  Every minute, request the temperature from the Arduino and read the local sensor. On
  \<open>RuntimeError\<close> the handler prints the message and executes \<open>continue\<close>: the rest of
  the iteration, the final \<open>time.sleep(1)\<close> included, is skipped.
\<close>

definition poll_block :: "tick \<Rightarrow> ctx \<Rightarrow> flow \<times> ctx" where
  "poll_block tk c =
     (case c of (s, out) \<Rightarrow>
        if py_trunc (now_poll tk) mod 60 = 0 then
          (let (s1, out1) =
                 (if arduinoAvailable s = Avail False then
                    (s\<lparr>arduinoTemp := None\<rparr>,
                     out @ [Publish serverLogNotice (VLog LogArduinoSilent)])
                  else (s, out));
               s2 = s1\<lparr>arduinoAvailable := Avail False\<rparr>;
               out2 = out1 @ [Publish serverLogNotice (VLog LogRequestingTemp),
                              Publish serverTempRequest (VStr ''0'')]
           in
           case sensor tk of
             RuntimeError msg \<Rightarrow> (Leave, s2, out2 @ [Print msg])
           | Temperature v \<Rightarrow>
               (Next, s2\<lparr>rpiTemp := v\<rparr>,
                out2 @ [Publish serverLogNotice
                          (VLog (LogTempsRecorded (arduinoTemp s2) v))]))
        else (Next, c))"

text \<open>Once the room is occupied, turn the AC to quiet mode.\<close>

definition quiet_block :: "ctx \<Rightarrow> flow \<times> ctx" where
  "quiet_block c =
     (case c of (s, out) \<Rightarrow>
        if is_number (roomOccupancy s) \<and> occ_positive (roomOccupancy s)
           \<and> systemMode s \<noteq> ''quiet'' then
          (Next, s\<lparr>systemMode := ''quiet''\<rparr>,
           out @ [Publish serverModeCommand (VStr ''quiet'')])
        else (Next, c))"

text \<open>If occupancy has changed to 0, start a timer.\<close>

definition arm_block :: "tick \<Rightarrow> ctx \<Rightarrow> flow \<times> ctx" where
  "arm_block tk c =
     (case c of (s, out) \<Rightarrow>
        if systemPowerState s = ''on'' \<and> roomOccupancy s = Num 0 \<and> timeoutState s = False then
          (let stamp = now_arm tk + timeoutMinutes * 60 in
           (Next, s\<lparr>timeoutEndTimestamp := Some stamp, timeoutEndTime := Some stamp,
                     timeoutState := True\<rparr>,
            out @ [Publish serverLogNotice (VLog (LogTimeoutTriggered stamp))]))
        else (Next, c))"

text \<open>If the timer is active and the room is reoccupied, cancel the timer.\<close>

definition cancel_block :: "ctx \<Rightarrow> flow \<times> ctx" where
  "cancel_block c =
     (case c of (s, out) \<Rightarrow>
        if is_number (roomOccupancy s) \<and> occ_positive (roomOccupancy s)
           \<and> timeoutState s = True then
          (Next, s\<lparr>timeoutState := False\<rparr>,
           out @ [Publish serverLogNotice (VLog LogTimeoutCancelled)])
        else (Next, c))"

text \<open>
  If the timer has reached zero, turn the system off. The comparison reads
  \<open>timeoutEndTimestamp\<close> only when \<open>timeoutState\<close> is true; an unbound name there would
  raise \<open>NameError\<close> out of the loop.
\<close>

definition expiry_block :: "tick \<Rightarrow> ctx \<Rightarrow> flow \<times> ctx" where
  "expiry_block tk c =
     (case c of (s, out) \<Rightarrow>
        if timeoutState s = True then
          (case timeoutEndTimestamp s of
             None \<Rightarrow> (Raise NameError, c)
           | Some deadline \<Rightarrow>
               if now_expiry tk > deadline then
                 (Next, s\<lparr>systemPowerState := ''off'', timeoutState := False,
                           roomOccupancy := NA\<rparr>,
                  out @ [Publish serverPowerCommand (VStr ''off''),
                         Publish serverLogNotice (VLog LogTimeoutExpired)])
               else (Next, c))
        else (Next, c))"

text \<open>If the system has been switched off manually, cancel the timer if there is one.\<close>

definition off_cancel_block :: "ctx \<Rightarrow> flow \<times> ctx" where
  "off_cancel_block c =
     (case c of (s, out) \<Rightarrow>
        if systemPowerState s = ''off'' \<and> timeoutState s = True then
          (Next, s\<lparr>timeoutState := False\<rparr>,
           out @ [Publish serverLogNotice (VLog LogOffTimerCancelled)])
        else (Next, c))"

definition sleep_block :: "ctx \<Rightarrow> flow \<times> ctx" where
  "sleep_block c = (case c of (s, out) \<Rightarrow> (Next, s, out @ [Sleep 1]))"

text \<open>
  The part of an iteration before the expiry test, and the whole iteration. \<open>Leave\<close> is
  the \<open>continue\<close> of the sensor handler.
\<close>

definition before_expiry :: "state \<Rightarrow> tick \<Rightarrow> flow \<times> ctx" where
  "before_expiry s tk =
     run_blocks [poll_block tk, quiet_block, arm_block tk, cancel_block] (s, [])"

definition main_loop_body :: "state \<Rightarrow> tick \<Rightarrow> flow \<times> ctx" where
  "main_loop_body s tk =
     run_blocks [poll_block tk, quiet_block, arm_block tk, cancel_block,
                 expiry_block tk, off_cancel_block, sleep_block] (s, [])"

subsection \<open>Runs\<close>

datatype event = Msg message | Tick tick

definition step :: "builtins \<Rightarrow> state \<Rightarrow> event \<Rightarrow> flow \<times> ctx" where
  "step B s e = (case e of Msg m \<Rightarrow> on_message B s m | Tick tk \<Rightarrow> main_loop_body s tk)"

definition flow_of :: "flow \<times> ctx \<Rightarrow> flow" where
  "flow_of r = fst r"

definition state_of :: "flow \<times> ctx \<Rightarrow> state" where
  "state_of r = fst (snd r)"

definition actions_of :: "flow \<times> ctx \<Rightarrow> action list" where
  "actions_of r = snd (snd r)"

definition is_raise :: "flow \<Rightarrow> bool" where
  "is_raise f = (case f of Raise e \<Rightarrow> True | Next \<Rightarrow> False | Leave \<Rightarrow> False)"

definition raises :: "flow \<times> ctx \<Rightarrow> bool" where
  "raises r = is_raise (flow_of r)"

text \<open>
  A run executes events one after the other and stops at the first uncaught exception.
  It returns the last state, all effects in order, and whether an exception ended it.
\<close>

fun run :: "builtins \<Rightarrow> state \<Rightarrow> event list \<Rightarrow> state \<times> action list \<times> bool" where
  "run B s [] = (s, [], False)"
| "run B s (e # es) =
     (let r = step B s e in
      if raises r then (state_of r, actions_of r, True)
      else (case run B (state_of r) es of
              (s', out, failed) \<Rightarrow> (s', actions_of r @ out, failed)))"

text \<open>
  The states reachable from the initial state by steps on events that a predicate
  admits in the state they arrive in. A step is a whole call of the callback or a whole
  iteration of the loop, so these are the states between calls and iterations of
  executions in which calls and iterations take effect one at a time.
\<close>

inductive reach :: "builtins \<Rightarrow> (state \<Rightarrow> event \<Rightarrow> bool) \<Rightarrow> state \<Rightarrow> bool"
  for B :: builtins and admits :: "state \<Rightarrow> event \<Rightarrow> bool" where
  reach_init: "reach B admits init"
| reach_step: "reach B admits s \<Longrightarrow> admits s e \<Longrightarrow> reach B admits (state_of (step B s e))"

text \<open>Every message on any topic, and every iteration of the loop.\<close>

definition any_event :: "state \<Rightarrow> event \<Rightarrow> bool" where
  "any_event s e = True"

text \<open>Messages on the topics the client subscribes to, and every iteration of the loop.\<close>

definition delivered :: "state \<Rightarrow> event \<Rightarrow> bool" where
  "delivered s e = (case e of Msg m \<Rightarrow> topic m \<in> set subscribeTopics | Tick tk \<Rightarrow> True)"

text \<open>An iteration in which the expiry block switches the system off.\<close>

definition timer_expires :: "state \<Rightarrow> tick \<Rightarrow> bool" where
  "timer_expires s tk =
     (case before_expiry s tk of
        (Next, s', out) \<Rightarrow>
          timeoutState s' \<and>
          (case timeoutEndTimestamp s' of Some deadline \<Rightarrow> now_expiry tk > deadline
           | None \<Rightarrow> False)
      | (Leave, c') \<Rightarrow> False
      | (Raise e, c') \<Rightarrow> False)"

text \<open>
  Delivered events other than a mode command that arrives while the power is off and
  an iteration in which the timer expires.
\<close>

definition plain_event :: "state \<Rightarrow> event \<Rightarrow> bool" where
  "plain_event s e =
     (case e of
        Msg m \<Rightarrow> topic m \<in> set subscribeTopics
                 \<and> \<not> (topic m = userModeCommand \<and> systemPowerState s = ''off'')
      | Tick tk \<Rightarrow> \<not> timer_expires s tk)"

subsection \<open>The two places where an overlap matters, statement by statement\<close>

text \<open>
  The occupancy handler in two parts. The first is the test of the topic, the test of
  the power state and \<open>int(payload)\<close> (lines 130 to 135); it leaves the handler, or
  goes on with the number parsed. The second is the rest (lines 136 to 140), which
  reads \<open>roomOccupancy\<close> again.
\<close>

datatype occ_entry = OccSkip | OccReturn | OccInvalid | OccProceed int

definition occ_change_enter :: "builtins \<Rightarrow> message \<Rightarrow> state \<Rightarrow> occ_entry" where
  "occ_change_enter B m s =
     (if topic m = arduinoOccChangeNotice then
        (if systemPowerState s = ''off'' then OccReturn
         else case py_int B (payload m) of None \<Rightarrow> OccInvalid
              | Some occChange \<Rightarrow> OccProceed occChange)
      else OccSkip)"

definition occ_change_update :: "int \<Rightarrow> ctx \<Rightarrow> flow \<times> ctx" where
  "occ_change_update occChange c =
     (case c of (s, out) \<Rightarrow>
        (let s1 = s\<lparr>priorRoomOccupancy := Some (roomOccupancy s)\<rparr> in
         case roomOccupancy s1 of
           NA \<Rightarrow> (Raise TypeError, s1, out)
         | Num n \<Rightarrow>
             (let s2 = s1\<lparr>roomOccupancy := Num (n + occChange)\<rparr>;
                  s3 = (if n + occChange < 0 then s2\<lparr>roomOccupancy := Num 0\<rparr> else s2)
              in (Next, s3,
                  out @ [Publish serverLogNotice
                           (VLog (LogOccChange (priorRoomOccupancy s3)
                                    (roomOccupancy s3)))]))))"

text \<open>
  The quiet-mode rule in its parts: the test (line 270) and, after the publication of
  the mode command (line 271), the assignment (line 272).
\<close>

definition quiet_test :: "state \<Rightarrow> bool" where
  "quiet_test s =
     (is_number (roomOccupancy s) \<and> occ_positive (roomOccupancy s)
      \<and> systemMode s \<noteq> ''quiet'')"

definition quiet_assign :: "state \<Rightarrow> state" where
  "quiet_assign s = s\<lparr>systemMode := ''quiet''\<rparr>"

subsection \<open>A concrete instance of the built-in parsers\<close>

text \<open>
  For evaluating the model on concrete messages: texts made of an optional sign and
  ASCII decimal digits, on which Python's \<open>int\<close> returns the number written and \<open>float\<close>
  the same number. Any other text is rejected here, so the instance is used only on
  payloads of that form or on payloads that are not numbers at all.
\<close>

definition digit_table :: "(char \<times> nat) list" where
  "digit_table =
     [(CHR ''0'', 0), (CHR ''1'', 1), (CHR ''2'', 2), (CHR ''3'', 3), (CHR ''4'', 4),
      (CHR ''5'', 5), (CHR ''6'', 6), (CHR ''7'', 7), (CHR ''8'', 8), (CHR ''9'', 9)]"

definition digit_of :: "char \<Rightarrow> nat option" where
  "digit_of c = map_of digit_table c"

fun digits_to_nat :: "nat \<Rightarrow> string \<Rightarrow> nat option" where
  "digits_to_nat acc [] = Some acc"
| "digits_to_nat acc (c # cs) =
     (case digit_of c of None \<Rightarrow> None | Some d \<Rightarrow> digits_to_nat (10 * acc + d) cs)"

definition dec_nat :: "string \<Rightarrow> nat option" where
  "dec_nat cs = (if cs = [] then None else digits_to_nat 0 cs)"

definition dec_int :: "string \<Rightarrow> int option" where
  "dec_int cs =
     (case cs of
        [] \<Rightarrow> None
      | c # ds \<Rightarrow>
          if c = CHR ''-'' then map_option (\<lambda>n. - int n) (dec_nat ds)
          else if c = CHR ''+'' then map_option int (dec_nat ds)
          else map_option int (dec_nat cs))"

definition dec_builtins :: builtins where
  "dec_builtins = \<lparr> py_int = dec_int, py_float = (\<lambda>cs. map_option real_of_int (dec_int cs)) \<rparr>"

subsection \<open>Predicates used in the statements and proofs\<close>

text \<open>An iteration that the sensor handler's \<open>continue\<close> cuts short.\<close>

definition cut_short :: "tick \<Rightarrow> bool" where
  "cut_short tk =
     (py_trunc (now_poll tk) mod 60 = 0 \<and>
      (case sensor tk of RuntimeError msg \<Rightarrow> True | Temperature v \<Rightarrow> False))"


text \<open>A block keeps a property of the state and raises nothing where the property holds.\<close>

definition keeps :: "(state \<Rightarrow> bool) \<Rightarrow> (ctx \<Rightarrow> flow \<times> ctx) \<Rightarrow> bool" where
  "keeps P b = (\<forall>c. P (fst c) \<longrightarrow> P (fst (snd (b c))) \<and> \<not> is_raise (fst (b c)))"

definition occ_ok :: "occupancy \<Rightarrow> bool" where
  "occ_ok v = (case v of NA \<Rightarrow> True | Num n \<Rightarrow> n \<ge> 0)"

text \<open>
  The invariant of all runs: the power state is one of the two literals, a tracked
  occupancy is not negative, the occupancy is a number while the power is on, and an
  active timer has its deadline assigned.
\<close>

definition inv :: "state \<Rightarrow> bool" where
  "inv s = ((systemPowerState s = ''on'' \<or> systemPowerState s = ''off'')
            \<and> occ_ok (roomOccupancy s)
            \<and> (systemPowerState s = ''on'' \<longrightarrow> is_number (roomOccupancy s))
            \<and> (timeoutState s \<longrightarrow> timeoutEndTimestamp s \<noteq> None \<and> timeoutEndTime s \<noteq> None))"

text \<open>The state in which a run ends, and the effects it performs.\<close>

definition final_state :: "builtins \<Rightarrow> state \<Rightarrow> event list \<Rightarrow> state" where
  "final_state B s es = fst (run B s es)"

definition all_actions :: "builtins \<Rightarrow> state \<Rightarrow> event list \<Rightarrow> action list" where
  "all_actions B s es = fst (snd (run B s es))"

text \<open>The blocks of an iteration that follow the periodic poll.\<close>

definition loop_rest :: "tick \<Rightarrow> (ctx \<Rightarrow> flow \<times> ctx) list" where
  "loop_rest tk = [quiet_block, arm_block tk, cancel_block, expiry_block tk, off_cancel_block,
                   sleep_block]"


text \<open>
  While the power is off the occupancy is "N/A"; and, in addition, the mode is "N/A".
  Both include the invariant of all runs.
\<close>

definition off_occ :: "state \<Rightarrow> bool" where
  "off_occ s = (inv s \<and> (systemPowerState s = ''off'' \<longrightarrow> roomOccupancy s = NA))"

definition off_mode :: "state \<Rightarrow> bool" where
  "off_mode s = (off_occ s \<and> (systemPowerState s = ''off'' \<longrightarrow> systemMode s = ''N/A''))"

subsection \<open>Messages, iterations and states of the concrete runs\<close>

text \<open>
  Abbreviations for the inputs at which the model is evaluated: messages on the command
  topics, an iteration at clock value \<open>t\<close> with a sensor that reads 21 degrees, and one
  in which the sensor read fails.
\<close>

definition power_msg :: "string \<Rightarrow> message" where
  "power_msg p = \<lparr>topic = userPowerCommand, payload = p\<rparr>"

definition mode_msg :: "string \<Rightarrow> message" where
  "mode_msg p = \<lparr>topic = userModeCommand, payload = p\<rparr>"

definition occ_change_msg :: "string \<Rightarrow> message" where
  "occ_change_msg p = \<lparr>topic = arduinoOccChangeNotice, payload = p\<rparr>"

definition tick_at :: "real \<Rightarrow> tick" where
  "tick_at t = \<lparr>now_poll = t, sensor = Temperature (Some 21), now_arm = t, now_expiry = t\<rparr>"

definition failed_read_at :: "real \<Rightarrow> tick" where
  "failed_read_at t =
     \<lparr>now_poll = t, sensor = RuntimeError ''Checksum did not validate. Try again.'',
      now_arm = t, now_expiry = t\<rparr>"

definition st_on :: state where
  "st_on = init\<lparr>roomOccupancy := Num 0, systemMode := ''super'', systemPowerState := ''on''\<rparr>"

definition st_armed :: state where
  "st_armed = st_on\<lparr>timeoutEndTimestamp := Some 1300, timeoutEndTime := Some 1300,
                     timeoutState := True\<rparr>"


definition vacancy_trace :: "event list" where
  "vacancy_trace =
     [Msg (power_msg ''on''), Msg (occ_change_msg ''2''), Tick (tick_at 1000),
      Msg (occ_change_msg ''-2''), Tick (tick_at 1001), Tick (tick_at 1302)]"

definition failed_read_trace :: "event list" where
  "failed_read_trace =
     [Msg (power_msg ''on''), Msg (occ_change_msg ''1''), Tick (failed_read_at 1020)]"

definition good_read_trace :: "event list" where
  "good_read_trace =
     [Msg (power_msg ''on''), Msg (occ_change_msg ''1''), Tick (tick_at 1020)]"

text \<open>
  A mode command that arrives in the initial state, and the state after switching on,
  two people entering and switching off.
\<close>

definition mode_trace :: "event list" where
  "mode_trace = [Msg (mode_msg ''quiet'')]"

definition st_off_again :: state where
  "st_off_again = init\<lparr>priorRoomOccupancy := Some (Num 0)\<rparr>"

text \<open>The state after switching on and one person entering.\<close>

definition st_occupied :: state where
  "st_occupied = st_on\<lparr>priorRoomOccupancy := Some (Num 0), roomOccupancy := Num 1\<rparr>"

section \<open>Properties\<close>

subsection \<open>Topics and blocks\<close>

lemmas topic_defs = globalLog_def serverLogNotice_def serverTempCommand_def serverModeCommand_def
  serverPowerCommand_def serverTempRequest_def arduinoLogNotice_def arduinoTempNotice_def
  arduinoOccChangeNotice_def serverArduinoUpNotice_def serverTempNotice_arduino_def
  serverTempNotice_rpi_def serverTargetTempNotice_def serverModeNotice_def
  serverPowerStateNotice_def serverOccupancyNotice_def serverTimeoutNotice_def
  userRefreshRequest_def userTempCommand_def userModeCommand_def userPowerCommand_def
  userUpdateOccCommand_def

text \<open>The topics that the handlers of the callback test are pairwise different.\<close>

lemma topic_neq:
  "arduinoTempNotice \<noteq> arduinoOccChangeNotice \<and>
   arduinoTempNotice \<noteq> userRefreshRequest \<and>
   arduinoTempNotice \<noteq> userPowerCommand \<and>
   arduinoTempNotice \<noteq> userModeCommand \<and>
   arduinoTempNotice \<noteq> userTempCommand \<and>
   arduinoTempNotice \<noteq> userUpdateOccCommand \<and>
   arduinoOccChangeNotice \<noteq> arduinoTempNotice \<and>
   arduinoOccChangeNotice \<noteq> userRefreshRequest \<and>
   arduinoOccChangeNotice \<noteq> userPowerCommand \<and>
   arduinoOccChangeNotice \<noteq> userModeCommand \<and>
   arduinoOccChangeNotice \<noteq> userTempCommand \<and>
   arduinoOccChangeNotice \<noteq> userUpdateOccCommand \<and>
   userRefreshRequest \<noteq> arduinoTempNotice \<and>
   userRefreshRequest \<noteq> arduinoOccChangeNotice \<and>
   userRefreshRequest \<noteq> userPowerCommand \<and>
   userRefreshRequest \<noteq> userModeCommand \<and>
   userRefreshRequest \<noteq> userTempCommand \<and>
   userRefreshRequest \<noteq> userUpdateOccCommand \<and>
   userPowerCommand \<noteq> arduinoTempNotice \<and>
   userPowerCommand \<noteq> arduinoOccChangeNotice \<and>
   userPowerCommand \<noteq> userRefreshRequest \<and>
   userPowerCommand \<noteq> userModeCommand \<and>
   userPowerCommand \<noteq> userTempCommand \<and>
   userPowerCommand \<noteq> userUpdateOccCommand \<and>
   userModeCommand \<noteq> arduinoTempNotice \<and>
   userModeCommand \<noteq> arduinoOccChangeNotice \<and>
   userModeCommand \<noteq> userRefreshRequest \<and>
   userModeCommand \<noteq> userPowerCommand \<and>
   userModeCommand \<noteq> userTempCommand \<and>
   userModeCommand \<noteq> userUpdateOccCommand \<and>
   userTempCommand \<noteq> arduinoTempNotice \<and>
   userTempCommand \<noteq> arduinoOccChangeNotice \<and>
   userTempCommand \<noteq> userRefreshRequest \<and>
   userTempCommand \<noteq> userPowerCommand \<and>
   userTempCommand \<noteq> userModeCommand \<and>
   userTempCommand \<noteq> userUpdateOccCommand \<and>
   userUpdateOccCommand \<noteq> arduinoTempNotice \<and>
   userUpdateOccCommand \<noteq> arduinoOccChangeNotice \<and>
   userUpdateOccCommand \<noteq> userRefreshRequest \<and>
   userUpdateOccCommand \<noteq> userPowerCommand \<and>
   userUpdateOccCommand \<noteq> userModeCommand \<and>
   userUpdateOccCommand \<noteq> userTempCommand"
  by (simp add: topic_defs)

lemma log_topic:
  "str_contains arduinoTempNotice ''/notice/log'' = False"
  "str_contains arduinoOccChangeNotice ''/notice/log'' = False"
  "str_contains userRefreshRequest ''/notice/log'' = False"
  "str_contains userPowerCommand ''/notice/log'' = False"
  "str_contains userModeCommand ''/notice/log'' = False"
  "str_contains userTempCommand ''/notice/log'' = False"
  "str_contains userUpdateOccCommand ''/notice/log'' = False"
  by (simp_all add: topic_defs)

lemma temp_notice_skip:
  "topic m \<noteq> arduinoTempNotice \<Longrightarrow> temp_notice_block B m c = (Next, c)"
  by (simp add: temp_notice_block_def split: prod.splits)

lemma occ_change_skip:
  "topic m \<noteq> arduinoOccChangeNotice \<Longrightarrow> occ_change_block B m c = (Next, c)"
  by (simp add: occ_change_block_def split: prod.splits)

lemma refresh_skip: "topic m \<noteq> userRefreshRequest \<Longrightarrow> refresh_block m c = (Next, c)"
  by (simp add: refresh_block_def split: prod.splits)

lemma power_skip: "topic m \<noteq> userPowerCommand \<Longrightarrow> power_block m c = (Next, c)"
  by (simp add: power_block_def split: prod.splits)

lemma mode_skip: "topic m \<noteq> userModeCommand \<Longrightarrow> mode_block m c = (Next, c)"
  by (simp add: mode_block_def split: prod.splits)

lemma temp_skip: "topic m \<noteq> userTempCommand \<Longrightarrow> temp_block B m c = (Next, c)"
  by (simp add: temp_block_def split: prod.splits)

lemma occ_update_skip:
  "topic m \<noteq> userUpdateOccCommand \<Longrightarrow> occ_update_block B m c = (Next, c)"
  by (simp add: occ_update_block_def split: prod.splits)

lemma log_skip: "\<not> str_contains (topic m) ''/notice/log'' \<Longrightarrow> log_block m c = (Next, c)"
  by (simp add: log_block_def split: prod.splits)

lemmas skips = temp_notice_skip occ_change_skip refresh_skip power_skip mode_skip temp_skip
  occ_update_skip log_skip log_topic

subsection \<open>What the callback does on each command topic\<close>

lemma on_message_power:
  "on_message B s \<lparr>topic = userPowerCommand, payload = p\<rparr> =
     (if p \<in> set validPowerStates then
        (if systemPowerState s = ''off'' \<and> p = ''on'' then
           (Leave, (if is_number (roomOccupancy s) then s else s\<lparr>roomOccupancy := Num 0\<rparr>)
                      \<lparr>systemMode := ''super'', systemPowerState := p\<rparr>,
            [Publish serverPowerCommand (VStr p),
             Publish serverLogNotice (VLog (LogPowerForwarded p)),
             Sleep (1/2), Publish serverModeCommand (VStr ''super''), Sleep (1/2),
             Publish serverTempCommand (VInt (systemTargetTemp s))])
         else if systemPowerState s = ''on'' \<and> p = ''off'' then
           (Leave, s\<lparr>roomOccupancy := NA, systemMode := ''N/A'', systemPowerState := p\<rparr>,
            [Publish serverPowerCommand (VStr p),
             Publish serverLogNotice (VLog (LogPowerForwarded p))])
         else
           (Leave, s\<lparr>systemPowerState := p\<rparr>,
            [Publish serverPowerCommand (VStr p),
             Publish serverLogNotice (VLog (LogPowerForwarded p))]))
      else (Leave, s, [Publish serverLogNotice (VLog (LogInvalidPower p))]))"
  by (simp add: on_message_def skips topic_neq power_block_def Let_def)

lemma on_message_mode:
  "on_message B s \<lparr>topic = userModeCommand, payload = p\<rparr> =
     (if p \<in> set validModes then
        (Next, s\<lparr>systemMode := p\<rparr>,
         [Publish serverModeCommand (VStr p),
          Publish serverLogNotice (VLog (LogModeForwarded p))])
      else (Next, s, [Publish serverLogNotice (VLog (LogInvalidMode p))]))"
  by (simp add: on_message_def skips topic_neq mode_block_def)

lemma on_message_occ_change:
  "on_message B s \<lparr>topic = arduinoOccChangeNotice, payload = p\<rparr> =
     (if systemPowerState s = ''off'' then (Leave, s, [])
      else case py_int B p of
        None \<Rightarrow> (Next, s, [Publish serverLogNotice (VLog (LogInvalidOccChange p))])
      | Some d \<Rightarrow>
          (case roomOccupancy s of
             NA \<Rightarrow> (Raise TypeError, s\<lparr>priorRoomOccupancy := Some NA\<rparr>, [])
           | Num n \<Rightarrow>
               (Next, s\<lparr>priorRoomOccupancy := Some (Num n),
                         roomOccupancy := Num (max 0 (n + d))\<rparr>,
                [Publish serverLogNotice
                   (VLog (LogOccChange (Some (Num n)) (Num (max 0 (n + d)))))])))"
  by (simp add: on_message_def skips topic_neq occ_change_block_def Let_def max_def
      split: option.splits occupancy.splits)

lemma on_message_occ_update:
  "on_message B s \<lparr>topic = userUpdateOccCommand, payload = p\<rparr> =
     (case py_int B p of
        None \<Rightarrow> (Next, s, [Print ''Update occupancy command received'',
                           Publish serverLogNotice (VLog (LogInvalidOccUpdate p))])
      | Some k \<Rightarrow>
          if k \<ge> 0 then
            (Next, s\<lparr>priorRoomOccupancy := Some (roomOccupancy s), roomOccupancy := Num k\<rparr>,
             [Print ''Update occupancy command received''])
          else (Next, s, [Print ''Update occupancy command received'',
                          Publish serverLogNotice (VLog (LogInvalidOccupancy k))]))"
  by (simp add: on_message_def skips topic_neq occ_update_block_def Let_def
      split: option.splits)

subsection \<open>The invariant of all runs\<close>

lemma run_blocks_keeps:
  "(\<And>b. b \<in> set bs \<Longrightarrow> keeps P b) \<Longrightarrow> keeps P (run_blocks bs)"
proof (induction bs)
  case Nil
  show ?case by (simp add: keeps_def is_raise_def)
next
  case (Cons b bs)
  have kb: "keeps P b" using Cons.prems by simp
  have kr: "keeps P (run_blocks bs)" using Cons by simp
  show ?case
    unfolding keeps_def
  proof (intro allI impI)
    fix c :: ctx assume pc: "P (fst c)"
    obtain f c' where bc: "b c = (f, c')" by (cases "b c")
    from kb pc have "P (fst (snd (b c))) \<and> \<not> is_raise (fst (b c))"
      unfolding keeps_def by blast
    with bc have 1: "P (fst c')" "\<not> is_raise f" by simp_all
    show "P (fst (snd (run_blocks (b # bs) c))) \<and> \<not> is_raise (fst (run_blocks (b # bs) c))"
    proof (cases f)
      case Next
      from kr 1 have "P (fst (snd (run_blocks bs c'))) \<and> \<not> is_raise (fst (run_blocks bs c'))"
        unfolding keeps_def by blast
      with bc Next show ?thesis by simp
    next
      case Leave
      with bc 1 show ?thesis by (simp add: is_raise_def)
    next
      case (Raise e)
      with 1 show ?thesis by (simp add: is_raise_def)
    qed
  qed
qed

lemma keeps_apply:
  "keeps P b \<Longrightarrow> P s \<Longrightarrow> P (state_of (b (s, out))) \<and> \<not> is_raise (flow_of (b (s, out)))"
  unfolding keeps_def state_of_def flow_of_def by fastforce

lemma keeps_temp_notice: "keeps inv (temp_notice_block B m)"
  by (auto simp: keeps_def temp_notice_block_def inv_def is_raise_def Let_def
      split: option.splits)

lemma keeps_occ_change: "keeps inv (occ_change_block B m)"
  by (auto simp: keeps_def occ_change_block_def inv_def is_raise_def Let_def occ_ok_def
      split: option.splits occupancy.splits)

lemma keeps_refresh: "keeps inv (refresh_block m)"
  by (auto simp: keeps_def refresh_block_def inv_def is_raise_def Let_def split: option.splits)

lemma keeps_power: "keeps inv (power_block m)"
  by (auto simp: keeps_def power_block_def inv_def is_raise_def Let_def occ_ok_def
      validPowerStates_def split: option.splits occupancy.splits)

lemma keeps_mode: "keeps inv (mode_block m)"
  by (auto simp: keeps_def mode_block_def inv_def is_raise_def)

lemma keeps_temp: "keeps inv (temp_block B m)"
  by (auto simp: keeps_def temp_block_def inv_def is_raise_def split: option.splits)

lemma keeps_occ_update: "keeps inv (occ_update_block B m)"
  by (auto simp: keeps_def occ_update_block_def inv_def is_raise_def Let_def occ_ok_def
      split: option.splits)

lemma keeps_log: "keeps inv (log_block m)"
  by (auto simp: keeps_def log_block_def inv_def is_raise_def)

lemma keeps_poll: "keeps inv (poll_block tk)"
  by (auto simp: keeps_def poll_block_def inv_def is_raise_def Let_def
      split: sensor_read.splits)

lemma keeps_quiet: "keeps inv quiet_block"
  by (auto simp: keeps_def quiet_block_def inv_def is_raise_def)

lemma keeps_arm: "keeps inv (arm_block tk)"
  by (auto simp: keeps_def arm_block_def inv_def is_raise_def Let_def)

lemma keeps_cancel: "keeps inv cancel_block"
  by (auto simp: keeps_def cancel_block_def inv_def is_raise_def)

lemma keeps_expiry: "keeps inv (expiry_block tk)"
  by (auto simp: keeps_def expiry_block_def inv_def is_raise_def occ_ok_def
      split: option.splits)

lemma keeps_off_cancel: "keeps inv off_cancel_block"
  by (auto simp: keeps_def off_cancel_block_def inv_def is_raise_def)

lemma keeps_sleep: "keeps inv sleep_block"
  by (auto simp: keeps_def sleep_block_def inv_def is_raise_def)

lemma on_message_inv:
  assumes "inv s"
  shows "inv (state_of (on_message B s m)) \<and> \<not> is_raise (flow_of (on_message B s m))"
proof -
  have "keeps inv (run_blocks [temp_notice_block B m, occ_change_block B m, refresh_block m,
                 power_block m, mode_block m, temp_block B m, occ_update_block B m,
                 log_block m])"
    by (rule run_blocks_keeps)
       (auto simp: keeps_temp_notice keeps_occ_change keeps_refresh keeps_power keeps_mode
          keeps_temp keeps_occ_update keeps_log)
  from keeps_apply [OF this assms] show ?thesis
    unfolding on_message_def .
qed

lemma main_loop_body_inv:
  assumes "inv s"
  shows "inv (state_of (main_loop_body s tk)) \<and> \<not> is_raise (flow_of (main_loop_body s tk))"
proof -
  have "keeps inv (run_blocks [poll_block tk, quiet_block, arm_block tk, cancel_block,
                 expiry_block tk, off_cancel_block, sleep_block])"
    by (rule run_blocks_keeps)
       (auto simp: keeps_poll keeps_quiet keeps_arm keeps_cancel keeps_expiry keeps_off_cancel
          keeps_sleep)
  from keeps_apply [OF this assms] show ?thesis
    unfolding main_loop_body_def .
qed

lemma step_inv:
  "inv s \<Longrightarrow> inv (state_of (step B s e)) \<and> \<not> is_raise (flow_of (step B s e))"
  by (cases e) (simp_all add: step_def on_message_inv main_loop_body_inv)

lemma inv_init: "inv init"
  by (simp add: inv_def init_def occ_ok_def)

lemma reach_inv: "reach B admits s \<Longrightarrow> inv s"
  by (induction rule: reach.induct) (simp_all add: inv_init step_inv)

subsection \<open>Concrete runs\<close>

lemma dec_int_examples:
  "py_int dec_builtins ''1'' = Some 1"
  "py_int dec_builtins ''2'' = Some 2"
  "py_int dec_builtins ''-2'' = Some (-2)"
  "py_int dec_builtins ''-5'' = Some (-5)"
  "py_int dec_builtins ''-1'' = Some (-1)"
  by (simp_all add: dec_builtins_def dec_int_def dec_nat_def digit_of_def digit_table_def)

lemma step_power_on: "step B init (Msg (power_msg ''on'')) =
    (Leave, st_on,
     [Publish serverPowerCommand (VStr ''on''),
      Publish serverLogNotice (VLog (LogPowerForwarded ''on'')),
      Sleep (1/2), Publish serverModeCommand (VStr ''super''), Sleep (1/2),
      Publish serverTempCommand (VInt 16)])"
  by (simp add: step_def power_msg_def on_message_power validPowerStates_def st_on_def)
     (simp add: init_def)

lemma tick_arms: "step B st_on (Tick (tick_at 1000)) =
    (Next, st_armed,
     [Publish serverLogNotice (VLog (LogTimeoutTriggered 1300)), Sleep 1])"
  by (simp add: step_def main_loop_body_def tick_at_def poll_block_def quiet_block_def
      arm_block_def cancel_block_def expiry_block_def off_cancel_block_def sleep_block_def
      py_trunc_def st_armed_def st_on_def init_def timeoutMinutes_def Let_def)

lemma reach_st_on: "admits init (Msg (power_msg ''on'')) \<Longrightarrow> reach B admits st_on"
  using reach_step [OF reach_init, of admits "Msg (power_msg ''on'')" B]
  by (simp add: step_power_on state_of_def)

lemma reach_st_armed:
  "admits init (Msg (power_msg ''on'')) \<Longrightarrow> admits st_on (Tick (tick_at 1000))
   \<Longrightarrow> reach B admits st_armed"
  using reach_step [OF reach_st_on, of admits "Tick (tick_at 1000)" B]
  by (simp add: tick_arms state_of_def)

subsection \<open>Switching on\<close>

text \<open>
  C3. A power command "on" that arrives while the power is off makes the callback
  publish the power command "on", then (after the log notice and a sleep of half a
  second) the mode command "super", then (after another half second) the temperature
  command with the current target temperature, in this order and nothing else; the
  state afterwards has power "on" and mode "super", and the occupancy is 0 if it was
  "N/A" and unchanged if it was a number.
\<close>

theorem C3_power_on_sequence:
  assumes "systemPowerState s = ''off''"
  shows "on_message B s \<lparr>topic = userPowerCommand, payload = ''on''\<rparr> =
           (Leave,
            s\<lparr>roomOccupancy := (if is_number (roomOccupancy s) then roomOccupancy s else Num 0),
              systemMode := ''super'', systemPowerState := ''on''\<rparr>,
            [Publish serverPowerCommand (VStr ''on''),
             Publish serverLogNotice (VLog (LogPowerForwarded ''on'')),
             Sleep (1/2),
             Publish serverModeCommand (VStr ''super''),
             Sleep (1/2),
             Publish serverTempCommand (VInt (systemTargetTemp s))])"
  using assms by (simp add: on_message_power validPowerStates_def)

theorem C3_power_on_sequence_witness:
  "systemPowerState init = ''off'' \<and>
   on_message dec_builtins init \<lparr>topic = userPowerCommand, payload = ''on''\<rparr> =
     (Leave,
      init\<lparr>roomOccupancy := Num 0, systemMode := ''super'', systemPowerState := ''on''\<rparr>,
      [Publish serverPowerCommand (VStr ''on''),
       Publish serverLogNotice (VLog (LogPowerForwarded ''on'')),
       Sleep (1/2),
       Publish serverModeCommand (VStr ''super''),
       Sleep (1/2),
       Publish serverTempCommand (VInt 16)])"
proof -
  have off: "systemPowerState init = ''off''" by (simp add: init_def)
  have occ: "roomOccupancy init = NA" "systemTargetTemp init = 16" by (simp_all add: init_def)
  show ?thesis using off C3_power_on_sequence [OF off, of dec_builtins] by (simp add: occ)
qed

text \<open>
  C4. Of two power commands "on" in a row, starting with the power off, the first sets
  the mode to "super" and publishes the mode command "super" and the temperature
  command; the second leaves the state as it is and publishes only the power command
  and its log notice, so no mode or temperature command.
\<close>

theorem C4_repeated_power_on:
  assumes "systemPowerState s = ''off''"
  shows "let on = \<lparr>topic = userPowerCommand, payload = ''on''\<rparr>;
             r1 = on_message B s on;
             r2 = on_message B (state_of r1) on
         in systemMode (state_of r1) = ''super''
            \<and> Publish serverModeCommand (VStr ''super'') \<in> set (actions_of r1)
            \<and> Publish serverTempCommand (VInt (systemTargetTemp s)) \<in> set (actions_of r1)
            \<and> state_of r2 = state_of r1
            \<and> actions_of r2 = [Publish serverPowerCommand (VStr ''on''),
                                Publish serverLogNotice (VLog (LogPowerForwarded ''on''))]"
  using assms
  by (simp add: on_message_power validPowerStates_def state_of_def actions_of_def Let_def)

theorem C4_repeated_power_on_witness:
  "systemPowerState init = ''off'' \<and>
   (let on = \<lparr>topic = userPowerCommand, payload = ''on''\<rparr>;
        r1 = on_message dec_builtins init on;
        r2 = on_message dec_builtins (state_of r1) on
    in systemMode (state_of r1) = ''super''
       \<and> Publish serverModeCommand (VStr ''super'') \<in> set (actions_of r1)
       \<and> Publish serverTempCommand (VInt (systemTargetTemp init)) \<in> set (actions_of r1)
       \<and> state_of r2 = state_of r1
       \<and> actions_of r2 = [Publish serverPowerCommand (VStr ''on''),
                           Publish serverLogNotice (VLog (LogPowerForwarded ''on''))])"
proof -
  have off: "systemPowerState init = ''off''" by (simp add: init_def)
  show ?thesis using off C4_repeated_power_on [OF off, of dec_builtins] by simp
qed

text \<open>
  C5, as amended. A mode command is rejected exactly when its payload is not one of
  "quiet", "super" and "cooling": then the state stays as it is and only a diagnostic
  log notice is published. A payload in the allowed set is accepted whatever the power
  state, also while the power is off: the mode command is published and the mode set.
\<close>

theorem C5_mode_command:
  "(p \<in> set validModes \<longrightarrow>
      on_message B s \<lparr>topic = userModeCommand, payload = p\<rparr> =
        (Next, s\<lparr>systemMode := p\<rparr>,
         [Publish serverModeCommand (VStr p),
          Publish serverLogNotice (VLog (LogModeForwarded p))]))
   \<and> (p \<notin> set validModes \<longrightarrow>
      on_message B s \<lparr>topic = userModeCommand, payload = p\<rparr> =
        (Next, s, [Publish serverLogNotice (VLog (LogInvalidMode p))]))"
  by (simp add: on_message_mode)

theorem C5_mode_command_witness:
  "(''cooling'' \<in> set validModes \<and>
      on_message dec_builtins init \<lparr>topic = userModeCommand, payload = ''cooling''\<rparr> =
        (Next, init\<lparr>systemMode := ''cooling''\<rparr>,
         [Publish serverModeCommand (VStr ''cooling''),
          Publish serverLogNotice (VLog (LogModeForwarded ''cooling''))]))
   \<and> (''loud'' \<notin> set validModes \<and>
      on_message dec_builtins init \<lparr>topic = userModeCommand, payload = ''loud''\<rparr> =
        (Next, init, [Publish serverLogNotice (VLog (LogInvalidMode ''loud''))]))"
proof -
  have a: "''cooling'' \<in> set validModes" and b: "''loud'' \<notin> set validModes"
    by (simp_all add: validModes_def)
  show ?thesis
    using a b C5_mode_command [of "''cooling''" dec_builtins init]
      C5_mode_command [of "''loud''" dec_builtins init]
    by simp
qed

text \<open>
  C5 as stated fails: with the power off (the initial state), the mode command "quiet"
  is not rejected; the callback publishes the mode command and changes the mode.
\<close>

theorem C5_counterexample:
  "systemPowerState init = ''off''
   \<and> flow_of (on_message dec_builtins init \<lparr>topic = userModeCommand, payload = ''quiet''\<rparr>) = Next
   \<and> state_of (on_message dec_builtins init \<lparr>topic = userModeCommand, payload = ''quiet''\<rparr>)
       = init\<lparr>systemMode := ''quiet''\<rparr>
   \<and> state_of (on_message dec_builtins init \<lparr>topic = userModeCommand, payload = ''quiet''\<rparr>)
       \<noteq> init
   \<and> Publish serverModeCommand (VStr ''quiet'')
       \<in> set (actions_of (on_message dec_builtins init
                 \<lparr>topic = userModeCommand, payload = ''quiet''\<rparr>))"
proof -
  have "init\<lparr>systemMode := ''quiet''\<rparr> \<noteq> init"
  proof
    assume "init\<lparr>systemMode := ''quiet''\<rparr> = init"
    then have "systemMode (init\<lparr>systemMode := ''quiet''\<rparr>) = systemMode init" by simp
    then show False by (simp add: init_def)
  qed
  then show ?thesis
    by (simp add: on_message_mode validModes_def state_of_def actions_of_def flow_of_def)
       (simp add: init_def)
qed

text \<open>
  C6. In every state reachable by messages on any topic and iterations of the loop, an
  occupancy that is a number is not negative; an occupancy change \<open>d\<close> applied to the
  count \<open>n\<close> gives \<open>max 0 (n + d)\<close>; and an occupancy update with a negative number
  leaves the state as it is.
\<close>

theorem C6_occupancy_never_negative:
  "(reach B any_event s \<longrightarrow> (\<forall>n. roomOccupancy s = Num n \<longrightarrow> 0 \<le> n))
   \<and> (systemPowerState s1 \<noteq> ''off'' \<and> roomOccupancy s1 = Num n1 \<and> py_int B p1 = Some d \<longrightarrow>
        roomOccupancy (state_of (on_message B s1
                         \<lparr>topic = arduinoOccChangeNotice, payload = p1\<rparr>))
          = Num (max 0 (n1 + d)))
   \<and> (py_int B p2 = Some k \<and> k < 0 \<longrightarrow>
        state_of (on_message B s2 \<lparr>topic = userUpdateOccCommand, payload = p2\<rparr>) = s2)"
proof (intro conjI impI)
  assume "reach B any_event s"
  then have "inv s" by (rule reach_inv)
  then show "\<forall>n. roomOccupancy s = Num n \<longrightarrow> 0 \<le> n"
    by (auto simp: inv_def occ_ok_def)
next
  assume "systemPowerState s1 \<noteq> ''off'' \<and> roomOccupancy s1 = Num n1 \<and> py_int B p1 = Some d"
  then show "roomOccupancy (state_of (on_message B s1
                         \<lparr>topic = arduinoOccChangeNotice, payload = p1\<rparr>))
          = Num (max 0 (n1 + d))"
    by (simp add: on_message_occ_change state_of_def)
next
  assume "py_int B p2 = Some k \<and> k < 0"
  then show "state_of (on_message B s2 \<lparr>topic = userUpdateOccCommand, payload = p2\<rparr>) = s2"
    by (simp add: on_message_occ_update state_of_def)
qed

theorem C6_occupancy_never_negative_witness:
  "(reach dec_builtins any_event st_on \<and> roomOccupancy st_on = Num 0 \<and> (0::int) \<le> 0)
   \<and> (systemPowerState st_on \<noteq> ''off'' \<and> roomOccupancy st_on = Num 0
        \<and> py_int dec_builtins ''-5'' = Some (-5)
        \<and> roomOccupancy (state_of (on_message dec_builtins st_on
                            \<lparr>topic = arduinoOccChangeNotice, payload = ''-5''\<rparr>))
            = Num (max 0 (0 + (-5))))
   \<and> (py_int dec_builtins ''-1'' = Some (-1) \<and> (-1::int) < 0
        \<and> state_of (on_message dec_builtins st_on
                      \<lparr>topic = userUpdateOccCommand, payload = ''-1''\<rparr>) = st_on)"
proof -
  have r: "reach dec_builtins any_event st_on"
    by (rule reach_st_on) (simp add: any_event_def)
  have s: "systemPowerState st_on \<noteq> ''off''" "roomOccupancy st_on = Num 0"
    by (simp_all add: st_on_def)
  show ?thesis
    using r s dec_int_examples
      C6_occupancy_never_negative [of dec_builtins st_on st_on 0 "''-5''" "-5" "''-1''" "-1" st_on]
    by simp
qed



text \<open>
  C10. In every reachable state with \<open>timeoutState\<close> true, \<open>timeoutEndTimestamp\<close> and
  \<open>timeoutEndTime\<close> have been assigned; and in every reachable state no message and no
  iteration of the loop raises \<open>NameError\<close>, so the expiry comparison and the refresh
  handler never read an unassigned name.
\<close>

theorem C10_deadline_assigned:
  assumes "reach B any_event s"
  shows "(timeoutState s \<longrightarrow>
            (\<exists>d. timeoutEndTimestamp s = Some d) \<and> (\<exists>t. timeoutEndTime s = Some t))
         \<and> (\<forall>e. flow_of (step B s e) \<noteq> Raise NameError)"
proof -
  have i: "inv s" using assms by (rule reach_inv)
  have a: "timeoutState s \<longrightarrow>
            (\<exists>d. timeoutEndTimestamp s = Some d) \<and> (\<exists>t. timeoutEndTime s = Some t)"
    using i by (auto simp: inv_def)
  have b: "flow_of (step B s e) \<noteq> Raise NameError" for e
    using step_inv [OF i, of B e] by (auto simp: is_raise_def)
  from a b show ?thesis by blast
qed

theorem C10_deadline_assigned_witness:
  "reach dec_builtins any_event st_armed \<and> timeoutState st_armed
   \<and> timeoutEndTimestamp st_armed = Some 1300 \<and> timeoutEndTime st_armed = Some 1300
   \<and> flow_of (step dec_builtins st_armed (Tick (tick_at 1301))) \<noteq> Raise NameError
   \<and> flow_of (step dec_builtins st_armed
                (Msg \<lparr>topic = userRefreshRequest, payload = ''0''\<rparr>)) \<noteq> Raise NameError"
proof -
  have r: "reach dec_builtins any_event st_armed"
    by (rule reach_st_armed) (simp_all add: any_event_def)
  have s: "timeoutState st_armed" "timeoutEndTimestamp st_armed = Some 1300"
    "timeoutEndTime st_armed = Some 1300"
    by (simp_all add: st_armed_def)
  show ?thesis
    using r s C10_deadline_assigned [OF r] by blast
qed

subsection \<open>The main loop\<close>

lemmas loop_defs = main_loop_body_def poll_block_def quiet_block_def arm_block_def
  cancel_block_def expiry_block_def off_cancel_block_def sleep_block_def

lemma cut_short_body:
  assumes "py_trunc (now_poll tk) mod 60 = 0" and "sensor tk = RuntimeError msg"
  shows "main_loop_body s tk =
     (Leave,
      s\<lparr>arduinoTemp := (if arduinoAvailable s = Avail False then None else arduinoTemp s),
        arduinoAvailable := Avail False\<rparr>,
      (if arduinoAvailable s = Avail False
       then [Publish serverLogNotice (VLog LogArduinoSilent)] else [])
      @ [Publish serverLogNotice (VLog LogRequestingTemp),
         Publish serverTempRequest (VStr ''0''),
         Print msg])"
  using assms by (simp add: main_loop_body_def poll_block_def Let_def)

lemma poll_next:
  "\<not> cut_short tk \<Longrightarrow> \<exists>s' out'. poll_block tk (s, out) = (Next, s', out')
      \<and> systemPowerState s' = systemPowerState s \<and> roomOccupancy s' = roomOccupancy s
      \<and> systemMode s' = systemMode s \<and> timeoutState s' = timeoutState s
      \<and> timeoutEndTimestamp s' = timeoutEndTimestamp s
      \<and> set out' \<subseteq> set out \<union> {a. \<exists>t v. a = Publish t v \<and> t \<noteq> serverPowerCommand}"
  by (auto simp: cut_short_def poll_block_def Let_def topic_defs split: sensor_read.splits)


lemma final_state_Nil: "final_state B s [] = s"
  by (simp add: final_state_def)

lemma final_state_Cons:
  "final_state B s (e # es) =
     (if raises (step B s e) then state_of (step B s e)
      else final_state B (state_of (step B s e)) es)"
  by (simp add: final_state_def Let_def split: prod.splits)

lemma all_actions_Nil: "all_actions B s [] = []"
  by (simp add: all_actions_def)

lemma all_actions_Cons:
  "all_actions B s (e # es) =
     (if raises (step B s e) then actions_of (step B s e)
      else actions_of (step B s e) @ all_actions B (state_of (step B s e)) es)"
  by (simp add: all_actions_def Let_def split: prod.splits)

lemma step_Msg: "step B s (Msg m) = on_message B s m"
  by (simp add: step_def)

lemma step_Tick: "step B s (Tick tk) = main_loop_body s tk"
  by (simp add: step_def)

lemmas concrete_defs = step_Msg step_Tick power_msg_def occ_change_msg_def
  on_message_power on_message_occ_change validPowerStates_def dec_int_examples
  raises_def is_raise_def flow_of_def state_of_def actions_of_def

lemma vacancy_trace_state:
  "final_state dec_builtins init vacancy_trace =
     init\<lparr>roomOccupancy := NA, priorRoomOccupancy := Some (Num 2), systemMode := ''quiet'',
          systemPowerState := ''off'', timeoutState := False,
          timeoutEndTimestamp := Some 1301, timeoutEndTime := Some 1301\<rparr>"
  by (simp add: vacancy_trace_def final_state_Cons final_state_Nil concrete_defs loop_defs
      py_trunc_def timeoutMinutes_def Let_def init_def tick_at_def)






text \<open>
  C8, as amended. An iteration in the polling second whose sensor read raises
  \<open>RuntimeError\<close> is not fatal: it marks the Arduino as not yet heard from (clearing its
  temperature if it was already so marked), publishes the temperature request, prints
  the error and ends there. The local temperature, the mode, the power, the occupancy
  and the timer are as before: the quiet-mode rule and the timer evaluation do not run
  in it, nor does the final sleep. They run in every iteration that is not cut short:
  such an iteration is the poll followed by the remaining blocks.
\<close>

theorem C8_failed_read_skips_iteration:
  assumes "py_trunc (now_poll tk) mod 60 = 0" and "sensor tk = RuntimeError msg"
  shows "main_loop_body s tk =
           (Leave,
            s\<lparr>arduinoTemp := (if arduinoAvailable s = Avail False then None else arduinoTemp s),
              arduinoAvailable := Avail False\<rparr>,
            (if arduinoAvailable s = Avail False
             then [Publish serverLogNotice (VLog LogArduinoSilent)] else [])
            @ [Publish serverLogNotice (VLog LogRequestingTemp),
               Publish serverTempRequest (VStr ''0''),
               Print msg])
         \<and> \<not> raises (main_loop_body s tk)
         \<and> (\<forall>s' tk'. \<not> cut_short tk' \<longrightarrow>
               (\<exists>c. poll_block tk' (s', []) = (Next, c)
                    \<and> main_loop_body s' tk' = run_blocks (loop_rest tk') c))"
proof -
  have a: "main_loop_body s tk =
           (Leave,
            s\<lparr>arduinoTemp := (if arduinoAvailable s = Avail False then None else arduinoTemp s),
              arduinoAvailable := Avail False\<rparr>,
            (if arduinoAvailable s = Avail False
             then [Publish serverLogNotice (VLog LogArduinoSilent)] else [])
            @ [Publish serverLogNotice (VLog LogRequestingTemp),
               Publish serverTempRequest (VStr ''0''),
               Print msg])"
    using assms by (rule cut_short_body)
  have b: "\<not> raises (main_loop_body s tk)"
    by (simp add: a raises_def flow_of_def is_raise_def)
  have c: "\<exists>c. poll_block tk' (s', []) = (Next, c)
              \<and> main_loop_body s' tk' = run_blocks (loop_rest tk') c" if "\<not> cut_short tk'" for s' tk'
  proof -
    from poll_next [OF that, of s' "[]"] obtain s2 out2
      where p: "poll_block tk' (s', []) = (Next, s2, out2)" by blast
    then show ?thesis by (simp add: main_loop_body_def loop_rest_def)
  qed
  from a b c show ?thesis by blast
qed

theorem C8_failed_read_skips_iteration_witness:
  "py_trunc (now_poll (failed_read_at 1020)) mod 60 = 0
   \<and> sensor (failed_read_at 1020) = RuntimeError ''Checksum did not validate. Try again.''
   \<and> main_loop_body st_armed (failed_read_at 1020) =
       (Leave, st_armed\<lparr>arduinoAvailable := Avail False\<rparr>,
        [Publish serverLogNotice (VLog LogRequestingTemp),
         Publish serverTempRequest (VStr ''0''),
         Print ''Checksum did not validate. Try again.''])
   \<and> \<not> cut_short (tick_at 1301)
   \<and> main_loop_body st_armed (tick_at 1301) =
       run_blocks (loop_rest (tick_at 1301)) (st_armed, [])"
proof -
  have h: "py_trunc (now_poll (failed_read_at 1020)) mod 60 = 0"
    "sensor (failed_read_at 1020) = RuntimeError ''Checksum did not validate. Try again.''"
    by (simp_all add: failed_read_at_def py_trunc_def)
  have c: "\<not> cut_short (tick_at 1301)"
    by (simp add: cut_short_def tick_at_def)
  have p: "poll_block (tick_at 1301) (st_armed, []) = (Next, st_armed, [])"
    by (simp add: poll_block_def tick_at_def py_trunc_def)
  have av: "arduinoAvailable st_armed = AvailNA" "arduinoTemp st_armed = None"
    by (simp_all add: st_armed_def st_on_def init_def)
  have e: "st_armed\<lparr>arduinoTemp := None, arduinoAvailable := Avail False\<rparr>
           = st_armed\<lparr>arduinoAvailable := Avail False\<rparr>"
    by (simp add: st_armed_def st_on_def init_def)
  note th = C8_failed_read_skips_iteration [OF h, of st_armed]
  from th have 1: "main_loop_body st_armed (failed_read_at 1020) =
       (Leave, st_armed\<lparr>arduinoAvailable := Avail False\<rparr>,
        [Publish serverLogNotice (VLog LogRequestingTemp),
         Publish serverTempRequest (VStr ''0''),
         Print ''Checksum did not validate. Try again.''])"
    by (simp add: av e)
  from th c have "\<exists>c. poll_block (tick_at 1301) (st_armed, []) = (Next, c)
       \<and> main_loop_body st_armed (tick_at 1301) = run_blocks (loop_rest (tick_at 1301)) c"
    by blast
  with p have 2: "main_loop_body st_armed (tick_at 1301) =
       run_blocks (loop_rest (tick_at 1301)) (st_armed, [])" by auto
  from h c 1 2 show ?thesis by blast
qed

text \<open>
  C8 as stated fails: with the power on, one person in the room and the mode "super", an
  iteration whose sensor read fails leaves the mode "super" and publishes no mode
  command; the same iteration with a successful read sets the mode to "quiet".
\<close>

theorem C8_counterexample:
  "roomOccupancy (final_state dec_builtins init failed_read_trace) = Num 1
   \<and> systemMode (final_state dec_builtins init failed_read_trace) = ''super''
   \<and> Publish serverModeCommand (VStr ''quiet'')
        \<notin> set (all_actions dec_builtins init failed_read_trace)
   \<and> systemMode (final_state dec_builtins init good_read_trace) = ''quiet''
   \<and> Publish serverModeCommand (VStr ''quiet'')
        \<in> set (all_actions dec_builtins init good_read_trace)"
proof -
  have a: "final_state dec_builtins init failed_read_trace =
     init\<lparr>arduinoAvailable := Avail False, roomOccupancy := Num 1,
          priorRoomOccupancy := Some (Num 0), systemMode := ''super'',
          systemPowerState := ''on''\<rparr>"
    by (simp add: failed_read_trace_def final_state_Cons final_state_Nil concrete_defs loop_defs
      py_trunc_def timeoutMinutes_def Let_def init_def tick_at_def failed_read_at_def)
  have b: "systemMode (final_state dec_builtins init good_read_trace) = ''quiet''"
    by (simp add: good_read_trace_def final_state_Cons final_state_Nil concrete_defs loop_defs
      py_trunc_def timeoutMinutes_def Let_def init_def tick_at_def failed_read_at_def)
  have c: "Publish serverModeCommand (VStr ''quiet'')
        \<notin> set (all_actions dec_builtins init failed_read_trace)"
    by (simp add: failed_read_trace_def all_actions_Cons all_actions_Nil concrete_defs loop_defs
      py_trunc_def timeoutMinutes_def Let_def init_def tick_at_def failed_read_at_def)
  have d: "Publish serverModeCommand (VStr ''quiet'')
        \<in> set (all_actions dec_builtins init good_read_trace)"
    by (simp add: good_read_trace_def all_actions_Cons all_actions_Nil concrete_defs loop_defs
      py_trunc_def timeoutMinutes_def Let_def init_def tick_at_def failed_read_at_def)
  from a b c d show ?thesis by simp
qed

text \<open>
  C2 on the code. The room fills to 2 and the mode becomes "quiet"; the occupancy
  change -2 empties it; the iteration at 1001 arms the timer with deadline 1301; the
  iteration at 1302 switches the power off, sets the occupancy to "N/A" and clears the
  timer, but the mode is still "quiet", not "N/A".
\<close>

theorem C2_expiry_keeps_mode:
  "systemPowerState (final_state dec_builtins init vacancy_trace) = ''off''
   \<and> roomOccupancy (final_state dec_builtins init vacancy_trace) = NA
   \<and> timeoutState (final_state dec_builtins init vacancy_trace) = False
   \<and> systemMode (final_state dec_builtins init vacancy_trace) = ''quiet''
   \<and> systemMode (final_state dec_builtins init vacancy_trace) \<noteq> ''N/A''"
  by (simp add: vacancy_trace_state)

subsection \<open>The state while the power is off\<close>

lemma run_blocks_append:
  "run_blocks (xs @ ys) c =
     (case run_blocks xs c of (Next, c') \<Rightarrow> run_blocks ys c' | (Leave, c') \<Rightarrow> (Leave, c')
      | (Raise e, c') \<Rightarrow> (Raise e, c'))"
  by (induction xs arbitrary: c) (auto split: prod.splits flow.splits)


lemmas off_defs = off_mode_def off_occ_def inv_def occ_ok_def keeps_def is_raise_def

lemma keeps_skip: "(\<And>c. b c = (Next, c)) \<Longrightarrow> keeps P b"
  by (simp add: keeps_def is_raise_def)

lemma off_temp_notice: "keeps off_mode (temp_notice_block B m)"
  by (auto simp: off_defs temp_notice_block_def Let_def split: option.splits)

lemma off_occ_change: "keeps off_mode (occ_change_block B m)"
  by (auto simp: off_defs occ_change_block_def Let_def split: option.splits occupancy.splits)

lemma off_refresh: "keeps off_mode (refresh_block m)"
  by (auto simp: off_defs refresh_block_def Let_def split: option.splits)

lemma off_power: "keeps off_mode (power_block m)"
  by (auto simp: off_defs power_block_def Let_def validPowerStates_def
      split: option.splits occupancy.splits)

lemma off_temp: "keeps off_mode (temp_block B m)"
  by (auto simp: off_defs temp_block_def split: option.splits)

lemma off_log: "keeps off_mode (log_block m)"
  by (auto simp: off_defs log_block_def)

lemma off_poll: "keeps off_mode (poll_block tk)"
  by (auto simp: off_defs poll_block_def Let_def split: sensor_read.splits)

lemma off_quiet: "keeps off_mode quiet_block"
  by (auto simp: off_defs quiet_block_def)

lemma off_arm: "keeps off_mode (arm_block tk)"
  by (auto simp: off_defs arm_block_def Let_def)

lemma off_cancel: "keeps off_mode cancel_block"
  by (auto simp: off_defs cancel_block_def)

lemma off_off_cancel: "keeps off_mode off_cancel_block"
  by (auto simp: off_defs off_cancel_block_def)

lemma off_sleep: "keeps off_mode sleep_block"
  by (auto simp: off_defs sleep_block_def)

lemma occ_temp_notice: "keeps off_occ (temp_notice_block B m)"
  by (auto simp: off_defs temp_notice_block_def Let_def split: option.splits)

lemma occ_occ_change: "keeps off_occ (occ_change_block B m)"
  by (auto simp: off_defs occ_change_block_def Let_def split: option.splits occupancy.splits)

lemma occ_refresh: "keeps off_occ (refresh_block m)"
  by (auto simp: off_defs refresh_block_def Let_def split: option.splits)

lemma occ_power: "keeps off_occ (power_block m)"
  by (auto simp: off_defs power_block_def Let_def validPowerStates_def
      split: option.splits occupancy.splits)

lemma occ_mode: "keeps off_occ (mode_block m)"
  by (auto simp: off_defs mode_block_def)

lemma occ_temp: "keeps off_occ (temp_block B m)"
  by (auto simp: off_defs temp_block_def split: option.splits)

lemma occ_log: "keeps off_occ (log_block m)"
  by (auto simp: off_defs log_block_def)

lemma occ_poll: "keeps off_occ (poll_block tk)"
  by (auto simp: off_defs poll_block_def Let_def split: sensor_read.splits)

lemma occ_quiet: "keeps off_occ quiet_block"
  by (auto simp: off_defs quiet_block_def)

lemma occ_arm: "keeps off_occ (arm_block tk)"
  by (auto simp: off_defs arm_block_def Let_def)

lemma occ_cancel: "keeps off_occ cancel_block"
  by (auto simp: off_defs cancel_block_def)

lemma occ_expiry: "keeps off_occ (expiry_block tk)"
  by (auto simp: off_defs expiry_block_def split: option.splits)

lemma occ_off_cancel: "keeps off_occ off_cancel_block"
  by (auto simp: off_defs off_cancel_block_def)

lemma occ_sleep: "keeps off_occ sleep_block"
  by (auto simp: off_defs sleep_block_def)

lemma subscribed_not_update:
  "topic m \<in> set subscribeTopics \<Longrightarrow> topic m \<noteq> userUpdateOccCommand"
  by (auto simp: subscribeTopics_def topic_defs)

lemma delivered_msg:
  assumes "off_occ s" and "topic m \<noteq> userUpdateOccCommand"
  shows "off_occ (state_of (on_message B s m))"
proof -
  have u: "keeps off_occ (occ_update_block B m)"
    by (rule keeps_skip) (simp add: occ_update_skip assms(2))
  have "keeps off_occ (run_blocks [temp_notice_block B m, occ_change_block B m, refresh_block m,
                 power_block m, mode_block m, temp_block B m, occ_update_block B m,
                 log_block m])"
    by (rule run_blocks_keeps)
       (auto simp: occ_temp_notice occ_occ_change occ_refresh occ_power occ_mode occ_temp u
          occ_log)
  from keeps_apply [OF this assms(1)] show ?thesis
    unfolding on_message_def by blast
qed

lemma delivered_tick:
  assumes "off_occ s"
  shows "off_occ (state_of (main_loop_body s tk))"
proof -
  have "keeps off_occ (run_blocks [poll_block tk, quiet_block, arm_block tk, cancel_block,
                 expiry_block tk, off_cancel_block, sleep_block])"
    by (rule run_blocks_keeps)
       (auto simp: occ_poll occ_quiet occ_arm occ_cancel occ_expiry occ_off_cancel occ_sleep)
  from keeps_apply [OF this assms] show ?thesis
    unfolding main_loop_body_def by blast
qed

lemma reach_off_occ: "reach B delivered s \<Longrightarrow> off_occ s"
proof (induction rule: reach.induct)
  case reach_init
  show ?case by (simp add: off_occ_def inv_init) (simp add: init_def)
next
  case (reach_step s e)
  then show ?case
    by (cases e)
       (simp_all add: step_def delivered_def delivered_msg delivered_tick subscribed_not_update)
qed

lemma plain_msg:
  assumes "off_mode s" and "topic m \<noteq> userUpdateOccCommand"
    and "\<not> (topic m = userModeCommand \<and> systemPowerState s = ''off'')"
  shows "off_mode (state_of (on_message B s m))"
proof (cases "topic m = userModeCommand")
  case True
  then have m: "m = \<lparr>topic = userModeCommand, payload = payload m\<rparr>" by (cases m) simp
  from True assms(3) have p: "systemPowerState s \<noteq> ''off''" by simp
  have "off_mode (state_of (on_message B s \<lparr>topic = userModeCommand, payload = payload m\<rparr>))"
    using assms(1) p by (simp add: on_message_mode state_of_def off_mode_def off_occ_def inv_def)
  with m show ?thesis by simp
next
  case False
  have u: "keeps off_mode (occ_update_block B m)"
    by (rule keeps_skip) (simp add: occ_update_skip assms(2))
  have v: "keeps off_mode (mode_block m)"
    by (rule keeps_skip) (simp add: mode_skip False)
  have "keeps off_mode (run_blocks [temp_notice_block B m, occ_change_block B m, refresh_block m,
                 power_block m, mode_block m, temp_block B m, occ_update_block B m,
                 log_block m])"
    by (rule run_blocks_keeps)
       (auto simp: off_temp_notice off_occ_change off_refresh off_power v off_temp u off_log)
  from keeps_apply [OF this assms(1)] show ?thesis
    unfolding on_message_def by blast
qed

lemma expiry_idle:
  assumes "inv s"
    and "\<not> (timeoutState s \<and>
            (case timeoutEndTimestamp s of Some deadline \<Rightarrow> now_expiry tk > deadline
             | None \<Rightarrow> False))"
  shows "expiry_block tk (s, out) = (Next, s, out)"
  using assms by (auto simp: expiry_block_def inv_def split: option.splits)

lemma plain_tick:
  assumes "off_mode s" and "\<not> timer_expires s tk"
  shows "off_mode (state_of (main_loop_body s tk))"
proof -
  have k1: "keeps off_mode (run_blocks [poll_block tk, quiet_block, arm_block tk, cancel_block])"
    by (rule run_blocks_keeps) (auto simp: off_poll off_quiet off_arm off_cancel)
  have k2: "keeps off_mode (run_blocks [off_cancel_block, sleep_block])"
    by (rule run_blocks_keeps) (auto simp: off_off_cancel off_sleep)
  obtain f s' out' where b: "before_expiry s tk = (f, s', out')"
    by (cases "before_expiry s tk") auto
  from keeps_apply [OF k1 assms(1), of "[]"] b
  have s': "off_mode s'" and f: "\<not> is_raise f"
    by (simp_all add: before_expiry_def state_of_def flow_of_def)
  have split: "main_loop_body s tk =
      (case before_expiry s tk of
         (Next, c') \<Rightarrow> run_blocks [expiry_block tk, off_cancel_block, sleep_block] c'
       | (Leave, c') \<Rightarrow> (Leave, c') | (Raise e, c') \<Rightarrow> (Raise e, c'))"
    using run_blocks_append [of "[poll_block tk, quiet_block, arm_block tk, cancel_block]"
        "[expiry_block tk, off_cancel_block, sleep_block]" "(s, [])"]
    by (simp add: main_loop_body_def before_expiry_def)
  show ?thesis
  proof (cases f)
    case Next
    with assms(2) b
    have idle: "\<not> (timeoutState s' \<and>
            (case timeoutEndTimestamp s' of Some deadline \<Rightarrow> now_expiry tk > deadline
             | None \<Rightarrow> False))"
      by (simp add: timer_expires_def)
    have i: "inv s'" using s' by (simp add: off_mode_def off_occ_def)
    have "main_loop_body s tk = run_blocks [off_cancel_block, sleep_block] (s', out')"
      using split b Next expiry_idle [OF i idle, of out'] by simp
    with keeps_apply [OF k2 s', of out'] show ?thesis by simp
  next
    case Leave
    with split b s' show ?thesis by (simp add: state_of_def)
  next
    case (Raise e)
    with f show ?thesis by (simp add: is_raise_def)
  qed
qed

lemma reach_off_mode: "reach B plain_event s \<Longrightarrow> off_mode s"
proof (induction rule: reach.induct)
  case reach_init
  show ?case by (simp add: off_mode_def off_occ_def inv_init) (simp add: init_def)
next
  case (reach_step s e)
  then show ?case
    by (cases e)
       (simp_all add: step_def plain_event_def plain_msg plain_tick subscribed_not_update)
qed

text \<open>
  C1, as amended. In executions in which calls of the callback and iterations of the
  loop take effect one at a time: in every state reachable from the initial state by
  delivered messages
  (messages on the subscribed topics) and iterations of the loop, the occupancy is
  "N/A" whenever the power is off. In every state reachable by delivered messages and
  iterations, none of them a mode command arriving while the power is off or an
  iteration in which the timer expires, the mode is "N/A" as well whenever the power is
  off.
\<close>

theorem C1_off_state:
  "(reach B delivered s \<longrightarrow> systemPowerState s = ''off'' \<longrightarrow> roomOccupancy s = NA)
   \<and> (reach B plain_event s' \<longrightarrow> systemPowerState s' = ''off'' \<longrightarrow>
        systemMode s' = ''N/A'' \<and> roomOccupancy s' = NA)"
  using reach_off_occ [of B s] reach_off_mode [of B s']
  by (auto simp: off_mode_def off_occ_def)

lemma reach_st_off_again:
  assumes "admits init (Msg (power_msg ''on''))"
    and "admits st_on (Msg (occ_change_msg ''2''))"
    and "admits (st_on\<lparr>priorRoomOccupancy := Some (Num 0), roomOccupancy := Num 2\<rparr>)
           (Msg (power_msg ''off''))"
  shows "reach dec_builtins admits st_off_again"
proof -
  have r1: "reach dec_builtins admits st_on" using assms(1) by (rule reach_st_on)
  have e2: "state_of (step dec_builtins st_on (Msg (occ_change_msg ''2'')))
            = st_on\<lparr>priorRoomOccupancy := Some (Num 0), roomOccupancy := Num 2\<rparr>"
    by (simp add: concrete_defs st_on_def init_def)
  have r2: "reach dec_builtins admits
              (st_on\<lparr>priorRoomOccupancy := Some (Num 0), roomOccupancy := Num 2\<rparr>)"
    using reach_step [OF r1 assms(2)] by (simp only: e2)
  have e3: "state_of (step dec_builtins
              (st_on\<lparr>priorRoomOccupancy := Some (Num 0), roomOccupancy := Num 2\<rparr>)
              (Msg (power_msg ''off''))) = st_off_again"
    by (simp add: concrete_defs st_on_def init_def st_off_again_def)
  show ?thesis
    using reach_step [OF r2 assms(3)] by (simp only: e3)
qed

theorem C1_off_state_witness:
  "reach dec_builtins delivered st_off_again \<and> reach dec_builtins plain_event st_off_again
   \<and> systemPowerState st_off_again = ''off'' \<and> roomOccupancy st_off_again = NA
   \<and> systemMode st_off_again = ''N/A''"
proof -
  have d: "reach dec_builtins delivered st_off_again"
    by (rule reach_st_off_again)
       (simp_all add: delivered_def subscribeTopics_def power_msg_def occ_change_msg_def)
  have p: "reach dec_builtins plain_event st_off_again"
    by (rule reach_st_off_again)
       (simp_all add: plain_event_def subscribeTopics_def power_msg_def occ_change_msg_def
          topic_neq)
  have off: "systemPowerState st_off_again = ''off''"
    by (simp add: st_off_again_def init_def)
  from d p off C1_off_state [of dec_builtins st_off_again st_off_again]
  show ?thesis by blast
qed

subsection \<open>A call of the callback that overlaps an iteration of the loop\<close>

lemma occ_change_block_split:
  "occ_change_block B m (s, out) =
     (case occ_change_enter B m s of
        OccSkip \<Rightarrow> (Next, s, out)
      | OccReturn \<Rightarrow> (Leave, s, out)
      | OccInvalid \<Rightarrow>
          (Next, s, out @ [Publish serverLogNotice (VLog (LogInvalidOccChange (payload m)))])
      | OccProceed occChange \<Rightarrow> occ_change_update occChange (s, out))"
  by (simp add: occ_change_block_def occ_change_enter_def occ_change_update_def
      split: option.splits)

lemma quiet_block_split:
  "quiet_block (s, out) =
     (if quiet_test s
      then (Next, quiet_assign s, out @ [Publish serverModeCommand (VStr ''quiet'')])
      else (Next, s, out))"
  by (simp add: quiet_block_def quiet_test_def quiet_assign_def)

lemma reach_st_occupied:
  assumes "admits init (Msg (power_msg ''on''))"
    and "admits st_on (Msg (occ_change_msg ''1''))"
  shows "reach dec_builtins admits st_occupied"
proof -
  have r1: "reach dec_builtins admits st_on" using assms(1) by (rule reach_st_on)
  have e2: "state_of (step dec_builtins st_on (Msg (occ_change_msg ''1''))) = st_occupied"
    by (simp add: concrete_defs st_on_def init_def st_occupied_def)
  show ?thesis using reach_step [OF r1 assms(2)] by (simp only: e2)
qed

lemma quiet_rule_overtaken:
  "reach dec_builtins plain_event st_occupied
   \<and> quiet_test st_occupied
   \<and> plain_event st_occupied (Msg (power_msg ''off''))
   \<and> state_of (on_message dec_builtins st_occupied (power_msg ''off''))
       = st_occupied\<lparr>roomOccupancy := NA, systemMode := ''N/A'', systemPowerState := ''off''\<rparr>
   \<and> systemPowerState (quiet_assign (state_of (on_message dec_builtins st_occupied
                                                (power_msg ''off'')))) = ''off''
   \<and> systemMode (quiet_assign (state_of (on_message dec_builtins st_occupied
                                          (power_msg ''off'')))) = ''quiet''"
proof -
  have r: "reach dec_builtins plain_event st_occupied"
    by (rule reach_st_occupied)
       (simp_all add: plain_event_def subscribeTopics_def power_msg_def occ_change_msg_def
          topic_neq)
  have t: "quiet_test st_occupied"
    by (simp add: quiet_test_def st_occupied_def st_on_def)
  have p: "plain_event st_occupied (Msg (power_msg ''off''))"
    by (simp add: plain_event_def subscribeTopics_def power_msg_def topic_neq)
  have e: "state_of (on_message dec_builtins st_occupied (power_msg ''off''))
       = st_occupied\<lparr>roomOccupancy := NA, systemMode := ''N/A'', systemPowerState := ''off''\<rparr>"
    by (simp add: power_msg_def on_message_power validPowerStates_def state_of_def
        st_occupied_def st_on_def)
  show ?thesis using r t p by (simp add: e quiet_assign_def)
qed


text \<open>
  C1 as stated fails twice. The mode command "quiet", delivered in the initial state,
  gives a reachable state with the power off and the mode "quiet". And with one person
  in the room and the mode "super", the loop passes the test of the quiet-mode rule and
  publishes; the callback handles the power command "off" meanwhile; the loop then
  assigns the mode: the power is off and the mode is "quiet", in a run with no mode
  command and no expiry.
\<close>

theorem C1_counterexample:
  "reach dec_builtins delivered (final_state dec_builtins init mode_trace)
   \<and> systemPowerState (final_state dec_builtins init mode_trace) = ''off''
   \<and> systemMode (final_state dec_builtins init mode_trace) = ''quiet''
   \<and> systemMode (final_state dec_builtins init mode_trace) \<noteq> ''N/A''
   \<and> reach dec_builtins plain_event st_occupied
   \<and> quiet_test st_occupied
   \<and> plain_event st_occupied (Msg (power_msg ''off''))
   \<and> systemPowerState (quiet_assign (state_of (on_message dec_builtins st_occupied
                                                (power_msg ''off'')))) = ''off''
   \<and> systemMode (quiet_assign (state_of (on_message dec_builtins st_occupied
                                          (power_msg ''off'')))) = ''quiet''"
proof -
  have f: "final_state dec_builtins init mode_trace
           = state_of (step dec_builtins init (Msg (mode_msg ''quiet'')))"
    by (simp add: mode_trace_def final_state_Cons final_state_Nil step_Msg mode_msg_def
        on_message_mode raises_def flow_of_def is_raise_def)
  have e: "state_of (step dec_builtins init (Msg (mode_msg ''quiet'')))
           = init\<lparr>systemMode := ''quiet''\<rparr>"
    by (simp add: step_Msg mode_msg_def on_message_mode validModes_def state_of_def)
  have a: "delivered init (Msg (mode_msg ''quiet''))"
    by (simp add: delivered_def subscribeTopics_def mode_msg_def)
  have r: "reach dec_builtins delivered (final_state dec_builtins init mode_trace)"
    using reach_step [where B = dec_builtins and admits = delivered and s = init
        and e = "Msg (mode_msg ''quiet'')", OF reach_init a]
    by (simp only: f)
  have m: "systemPowerState (final_state dec_builtins init mode_trace) = ''off''
     \<and> systemMode (final_state dec_builtins init mode_trace) = ''quiet''
     \<and> systemMode (final_state dec_builtins init mode_trace) \<noteq> ''N/A''"
    by (simp add: f e) (simp add: init_def)
  from r m quiet_rule_overtaken show ?thesis by blast
qed


end
